theory Spec2Isabelle
  imports Complex_Main "HOL-Library.Word" "HOL-Library.Log_Nat"
begin

section \<open>Language detection of \<open>AJ.py\<close>: the environment\<close>

text \<open>
  \<open>pygments_language_detect\<close> talks to three things outside the repository: the file
  system (\<open>Path.is_file\<close>, \<open>Path.rglob\<close>, \<open>open\<close>, \<open>read\<close>), the UTF-8 codec and the
  pygments lexer registry; \<open>detect_with_linguist\<close> runs a command and prints to the
  console. Each of them can raise; the exception classes that occur are the constructors
  of \<open>exc\<close>. Every constructor is a subclass of Python's \<open>Exception\<close>, so the clause
  \<open>except Exception\<close> catches all of them; the clauses \<open>except ClassNotFound\<close>,
  \<open>except UnicodeDecodeError\<close> and \<open>except FileNotFoundError\<close> catch exactly the
  constructor of that name. \<open>KeyboardInterrupt\<close> and \<open>SystemExit\<close> are outside the model.
\<close>

datatype exc =
    ClassNotFound
  | UnicodeDecodeError
  | UnicodeEncodeError
  | OSError
  | PermissionError
  | FileNotFoundError
  | CalledProcessError
  | TimeoutExpired
  | JSONDecodeError
  | ZeroDivisionError
  | OverflowError
  | OtherException

type_synonym byte = "8 word"

text \<open>Decoded text is a sequence of Unicode code points.\<close>

type_synonym str = "nat list"

text \<open>
  A regular file: \<open>name\<close> is the final path component (\<open>Path.name\<close>); \<open>io\<close> is what
  \<open>open(path, 'rb')\<close> followed by \<open>f.read\<close> delivers, either the exception raised
  (permission denied, file vanished, ...) or the bytes of the file.
\<close>

record regular_file =
  name :: string
  io :: "exc + byte list"

text \<open>
  \<open>Path.is_file()\<close> calls \<open>stat\<close>. pathlib (3.11) answers \<open>False\<close> when \<open>stat\<close> fails with
  \<open>ENOENT\<close>, \<open>ENOTDIR\<close>, \<open>EBADF\<close> or \<open>ELOOP\<close> and raises the \<open>OSError\<close> again for every other
  error number: \<open>EACCES\<close> (a file below a directory without search permission) arrives as
  \<open>PermissionError\<close>.
\<close>

datatype stat_failure = Access_denied | Other_errno

definition stat_exception :: "stat_failure \<Rightarrow> exc" where
  "stat_exception err = (case err of Access_denied \<Rightarrow> PermissionError | Other_errno \<Rightarrow> OSError)"

text \<open>
  What a path denotes. \<open>Other\<close> is anything for which \<open>is_file()\<close> is false and below
  which \<open>rglob\<close> finds nothing (a missing path, a dangling link, a socket, a link to a
  folder). \<open>Unstattable\<close> is a path on which \<open>is_file()\<close> raises; nothing is found below
  it either.
\<close>

datatype node =
    Regular regular_file
  | Directory string "node list"
  | Other string
  | Unstattable string stat_failure

fun is_file :: "node \<Rightarrow> exc + bool" where
  "is_file (Regular f) = Inr True"
| "is_file (Directory d entries) = Inr False"
| "is_file (Other p) = Inr False"
| "is_file (Unstattable p err) = Inl (stat_exception err)"

text \<open>
  The two pygments entry points return \<open>lexer.name\<close> or raise. They are parameters of the
  model: \<open>guess_lexer_for_filename(name, text)\<close> and \<open>get_lexer_for_filename(name)\<close>.
\<close>

type_synonym guesser = "string \<Rightarrow> str \<Rightarrow> exc + string"
type_synonym namer = "string \<Rightarrow> exc + string"

subsection \<open>\<open>Path.suffix\<close>\<close>

text \<open>
  \<open>str.rfind\<close> for one character: the index of its last occurrence, \<open>None\<close> for Python's
  \<open>-1\<close>.
\<close>

fun rfind :: "char \<Rightarrow> string \<Rightarrow> nat option" where
  "rfind c [] = None"
| "rfind c (x # xs) =
     (case rfind c xs of
        Some i \<Rightarrow> Some (Suc i)
      | None \<Rightarrow> if x = c then Some 0 else None)"

text \<open>
  pathlib: \<open>i = name.rfind('.')\<close>; the suffix is \<open>name[i:]\<close> when
  \<open>0 < i < len(name) - 1\<close> and the empty string otherwise.
\<close>

definition suffix :: "string \<Rightarrow> string" where
  "suffix n =
     (case rfind CHR ''.'' n of
        None \<Rightarrow> []
      | Some i \<Rightarrow> if 0 < i \<and> i + 1 < length n then drop i n else [])"

definition binary_extensions :: "string set" where
  "binary_extensions =
     {''.deb'', ''.bin'', ''.exe'', ''.zip'', ''.tar'', ''.gz'', ''.png'', ''.jpg''}"

subsection \<open>\<open>bytes.decode('utf-8')\<close>\<close>

definition continuation :: "byte \<Rightarrow> bool" where
  "continuation b = (0x80 \<le> b \<and> b \<le> 0xBF)"

definition payload :: "byte \<Rightarrow> nat" where
  "payload b = unat b - 0x80"

text \<open>
  The strict decoder: shortest form only, no surrogates (\<open>ED A0..BF\<close>), nothing above
  \<open>U+10FFFF\<close>. \<open>None\<close> stands for \<open>UnicodeDecodeError\<close>.
\<close>

fun decode_utf8 :: "byte list \<Rightarrow> str option" where
  "decode_utf8 [] = Some []"
| "decode_utf8 (b # bs) =
     (if b < 0x80 then map_option ((#) (unat b)) (decode_utf8 bs)
      else if 0xC2 \<le> b \<and> b \<le> 0xDF then
        (case bs of
           c1 # r \<Rightarrow>
             if continuation c1
             then map_option ((#) ((unat b - 0xC0) * 64 + payload c1)) (decode_utf8 r)
             else None
         | _ \<Rightarrow> None)
      else if 0xE0 \<le> b \<and> b \<le> 0xEF then
        (case bs of
           c1 # c2 # r \<Rightarrow>
             if continuation c1 \<and> continuation c2
                \<and> (b = 0xE0 \<longrightarrow> 0xA0 \<le> c1) \<and> (b = 0xED \<longrightarrow> c1 \<le> 0x9F)
             then map_option
                    ((#) ((unat b - 0xE0) * 4096 + payload c1 * 64 + payload c2))
                    (decode_utf8 r)
             else None
         | _ \<Rightarrow> None)
      else if 0xF0 \<le> b \<and> b \<le> 0xF4 then
        (case bs of
           c1 # c2 # c3 # r \<Rightarrow>
             if continuation c1 \<and> continuation c2 \<and> continuation c3
                \<and> (b = 0xF0 \<longrightarrow> 0x90 \<le> c1) \<and> (b = 0xF4 \<longrightarrow> c1 \<le> 0x8F)
             then map_option
                    ((#) ((unat b - 0xF0) * 262144 + payload c1 * 4096
                          + payload c2 * 64 + payload c3))
                    (decode_utf8 r)
             else None
         | _ \<Rightarrow> None)
      else None)"

definition decode :: "byte list \<Rightarrow> exc + str" where
  "decode content =
     (case decode_utf8 content of None \<Rightarrow> Inl UnicodeDecodeError | Some t \<Rightarrow> Inr t)"

subsection \<open>Numbers in a result\<close>

text \<open>
  The values of a result dictionary: the integer \<open>100\<close> of single-file mode, or a float.
  A finite binary64 value is held as the rational it denotes.
\<close>

datatype pyfloat = Finite rat | PosInf

datatype pynum = PyInt int | PyFloat pyfloat

type_synonym breakdown = "(string \<times> pynum) list"

section \<open>Single-file detection (lines 85 to 104)\<close>

text \<open>
  The result is paired with the names of the files that were opened, in order: the
  observable effect of the function on the file system.
\<close>

definition detect_file :: "guesser \<Rightarrow> namer \<Rightarrow> regular_file \<Rightarrow> breakdown \<times> string list" where
  "detect_file g l path =
     (if suffix (name path) \<in> binary_extensions then ([(''Binary'', PyInt 100)], [])
      else
        (let attempt =
           (case io path of
              Inl e \<Rightarrow> Inl e
            | Inr bs \<Rightarrow>
                (let content = take 8192 bs;
                     inner =
                       (case decode content of
                          Inl e \<Rightarrow> Inl e
                        | Inr text \<Rightarrow>
                            (case g (name path) text of
                               Inr lexer \<Rightarrow> Inr [(lexer, PyInt 100)]
                             | Inl e \<Rightarrow>
                                 if e = ClassNotFound
                                 then (case l (name path) of
                                         Inr lexer \<Rightarrow> Inr [(lexer, PyInt 100)]
                                       | Inl e' \<Rightarrow> Inl e')
                                 else Inl e))
                 in (case inner of
                       Inl e \<Rightarrow>
                         if e = UnicodeDecodeError then Inr [(''Binary'', PyInt 100)]
                         else Inl e
                     | Inr r \<Rightarrow> Inr r)))
         in (case attempt of
               Inl e \<Rightarrow> ([(''Error'', PyInt 100)], [name path])
             | Inr r \<Rightarrow> (r, [name path]))))"

section \<open>Folder detection (lines 106 to 132)\<close>

text \<open>
  \<open>language_stats\<close> is a \<open>defaultdict(int)\<close>: an association list in insertion order with
  distinct keys. \<open>increment\<close> is \<open>language_stats[k] += 1\<close>: a missing key is created at
  \<open>0\<close> and then counted.
\<close>

fun increment :: "(string \<times> nat) list \<Rightarrow> string \<Rightarrow> (string \<times> nat) list" where
  "increment [] k = [(k, 1)]"
| "increment ((k', v) # rest) k =
     (if k' = k then (k', v + 1) # rest else (k', v) # increment rest k)"

text \<open>
  The local variables of the loop, and the names of the files opened so far (the effect
  on the file system, not a variable of the source).
\<close>

record scan_state =
  language_stats :: "(string \<times> nat) list"
  total_files :: nat
  opened :: "string list"

definition tally :: "string \<Rightarrow> scan_state \<Rightarrow> scan_state" where
  "tally k st = st\<lparr>language_stats := increment (language_stats st) k\<rparr>"

text \<open>The body of the loop for one regular file (lines 109 to 128).\<close>

definition visit :: "guesser \<Rightarrow> namer \<Rightarrow> regular_file \<Rightarrow> scan_state \<Rightarrow> scan_state" where
  "visit g l file st0 =
     (let st = st0\<lparr>total_files := total_files st0 + 1\<rparr>
      in if suffix (name file) \<in> binary_extensions then tally ''Binary'' st
         else
           (let st1 = st\<lparr>opened := opened st @ [name file]\<rparr>;
                attempt =
                  (case io file of
                     Inl e \<Rightarrow> Inl e
                   | Inr bs \<Rightarrow>
                       (let content = take 8192 bs;
                            inner =
                              (case decode content of
                                 Inl e \<Rightarrow> Inl e
                               | Inr text \<Rightarrow>
                                   (case g (name file) text of
                                      Inr lexer \<Rightarrow> Inr (tally lexer st1)
                                    | Inl e \<Rightarrow>
                                        if e = ClassNotFound
                                        then (case l (name file) of
                                                Inr lexer \<Rightarrow> Inr (tally lexer st1)
                                              | Inl e' \<Rightarrow> Inl e')
                                        else Inl e))
                        in (case inner of
                              Inl e \<Rightarrow>
                                if e = UnicodeDecodeError then Inr (tally ''Binary'' st1)
                                else Inl e
                            | Inr s \<Rightarrow> Inr s)))
            in (case attempt of
                  Inl e \<Rightarrow> tally ''Error'' st1
                | Inr s \<Rightarrow> s)))"

text \<open>
  \<open>path.rglob('*')\<close> is pathlib's selector for \<open>**/*\<close>. \<open>iterate_directories\<close> yields the
  folder itself and then, for each of its sub-folders in turn, what \<open>iterate_directories\<close>
  yields for that sub-folder; \<open>rglob\<close> lists the entries of each folder so yielded. So all
  entries of a folder come before the entries of its sub-folders. The entries of one
  folder are in the order of the model's list (the order of \<open>scandir\<close>). pathlib swallows
  the \<open>PermissionError\<close> of \<open>scandir\<close>: a folder that cannot be listed has no entries
  here.
\<close>

fun iterate_directories :: "node \<Rightarrow> node list" where
  "iterate_directories (Directory d entries) =
     Directory d entries # concat (map iterate_directories entries)"
| "iterate_directories (Regular f) = []"
| "iterate_directories (Other p) = []"
| "iterate_directories (Unstattable p err) = []"

fun entries_of :: "node \<Rightarrow> node list" where
  "entries_of (Directory d entries) = entries"
| "entries_of (Regular f) = []"
| "entries_of (Other p) = []"
| "entries_of (Unstattable p err) = []"

definition rglob :: "node \<Rightarrow> node list" where
  "rglob path = concat (map entries_of (iterate_directories path))"

text \<open>
  The loop of lines 107 to 128. \<open>file.is_file()\<close> is outside the \<open>try\<close>: when it raises,
  the loop ends there. The result is the exception that ended the loop, if any, and the
  local variables at that moment. (\<open>is_file\<close> answers \<open>True\<close> for a \<open>Regular\<close> entry only,
  so the second branch of the inner \<open>case\<close> is never taken.)
\<close>

fun scan :: "guesser \<Rightarrow> namer \<Rightarrow> node list \<Rightarrow> scan_state \<Rightarrow> exc option \<times> scan_state" where
  "scan g l [] st = (None, st)"
| "scan g l (file # rest) st =
     (case is_file file of
        Inl e \<Rightarrow> (Some e, st)
      | Inr regular \<Rightarrow>
          if regular
          then (case file of
                  Regular f \<Rightarrow> scan g l rest (visit g l f st)
                | _ \<Rightarrow> scan g l rest st)
          else scan g l rest st)"

definition initial :: scan_state where
  "initial = \<lparr>language_stats = [], total_files = 0, opened = []\<rparr>"

subsection \<open>Float arithmetic of line 131\<close>

definition pow2 :: "int \<Rightarrow> rat" where
  "pow2 e = (if 0 \<le> e then 2 ^ nat e else 1 / 2 ^ nat (- e))"

text \<open>Rounding to the nearest integer, ties to the even one.\<close>

definition round_half_even :: "rat \<Rightarrow> int" where
  "round_half_even y =
     (let f = \<lfloor>y\<rfloor>; r = y - of_int f
      in if r < 1 / 2 then f
         else if 1 / 2 < r then f + 1
         else if even f then f else f + 1)"

text \<open>The binary exponent of a positive rational: \<open>2 ^ e \<le> x < 2 ^ (e + 1)\<close>.\<close>

definition exponent :: "rat \<Rightarrow> int" where
  "exponent x = (if 1 \<le> x then bitlen \<lfloor>x\<rfloor> - 1 else - bitlen (\<lceil>1 / x\<rceil> - 1))"

text \<open>
  The binary64 value nearest to a rational, ties to even: 53 significant bits, and below
  \<open>2 ^ -1022\<close> the fixed spacing \<open>2 ^ -1074\<close> of the subnormal numbers. The range is not
  cut off above here; the operations below do that.
\<close>

definition nearest_double :: "rat \<Rightarrow> rat" where
  "nearest_double x =
     (if x = 0 then 0
      else
        (let a = \<bar>x\<bar>;
             e = max (exponent a) (- 1022);
             ulp = pow2 (e - 52)
         in sgn x * of_int (round_half_even (a / ulp)) * ulp))"

definition overflows :: "rat \<Rightarrow> bool" where
  "overflows x = (2 ^ 1024 \<le> \<bar>x\<bar>)"

text \<open>
  \<open>v / total_files\<close> on two integers: the correctly rounded quotient,
  \<open>ZeroDivisionError\<close> for a zero divisor, \<open>OverflowError\<close> when the quotient is too large
  for a float.
\<close>

definition true_divide :: "nat \<Rightarrow> nat \<Rightarrow> exc + rat" where
  "true_divide v t =
     (if t = 0 then Inl ZeroDivisionError
      else
        (let q = nearest_double (of_nat v / of_nat t)
         in if overflows q then Inl OverflowError else Inr q))"

text \<open>Multiplication of two finite floats (here both are non-negative).\<close>

definition float_mul :: "rat \<Rightarrow> rat \<Rightarrow> pyfloat" where
  "float_mul a b =
     (let p = nearest_double (a * b) in if overflows p then PosInf else Finite p)"

text \<open>
  \<open>round(x, 1)\<close>: the decimal with one digit nearest to the exact value of the float
  (ties to even), converted back to the nearest float; infinities round to themselves.
\<close>

definition round1 :: "pyfloat \<Rightarrow> pyfloat" where
  "round1 x =
     (case x of
        PosInf \<Rightarrow> PosInf
      | Finite q \<Rightarrow> Finite (nearest_double (of_int (round_half_even (q * 10)) / 10)))"

text \<open>\<open>round(v/total_files*100, 1)\<close>\<close>

definition percentage :: "nat \<Rightarrow> nat \<Rightarrow> exc + pynum" where
  "percentage v t =
     (case true_divide v t of
        Inl e \<Rightarrow> Inl e
      | Inr q \<Rightarrow> Inr (PyFloat (round1 (float_mul q 100))))"

text \<open>The dictionary comprehension: the first exception ends it.\<close>

fun percentages :: "(string \<times> nat) list \<Rightarrow> nat \<Rightarrow> exc + breakdown" where
  "percentages [] t = Inr []"
| "percentages ((k, v) # rest) t =
     (case percentage v t of
        Inl e \<Rightarrow> Inl e
      | Inr p \<Rightarrow>
          (case percentages rest t of
             Inl e \<Rightarrow> Inl e
           | Inr ps \<Rightarrow> Inr ((k, p) # ps)))"

section \<open>\<open>pygments_language_detect\<close>\<close>

text \<open>
  The value returned or the exception raised, and the names of the files opened.
  \<open>path.is_file()\<close> of line 85 is outside every \<open>try\<close>: what it raises leaves the function.
  (\<open>is_file\<close> answers \<open>True\<close> for a \<open>Regular\<close> path only, so the second branch of the inner
  \<open>case\<close> is never taken.)
\<close>

definition pygments_language_detect ::
  "guesser \<Rightarrow> namer \<Rightarrow> node \<Rightarrow> (exc + breakdown) \<times> string list" where
  "pygments_language_detect g l path =
     (case is_file path of
        Inl e \<Rightarrow> (Inl e, [])
      | Inr regular \<Rightarrow>
          if regular
          then (case path of
                  Regular f \<Rightarrow> (let (r, tr) = detect_file g l f in (Inr r, tr))
                | _ \<Rightarrow> (Inr [], []))
          else
            (let (stopped, st) = scan g l (rglob path) initial
             in (case stopped of
                   Some e \<Rightarrow> Inl e
                 | None \<Rightarrow>
                     if total_files st > 0
                     then percentages (language_stats st) (total_files st)
                     else Inr [],
                 opened st)))"

section \<open>The external tool and the menu (lines 59 to 76 and 162 to 186)\<close>

text \<open>
  A decoded JSON document, as Python values; \<open>JNull\<close> is \<open>None\<close>, and \<open>JObj\<close> is the
  dictionary that \<open>json.loads\<close> has built (each key once).
\<close>

datatype json =
    JNull
  | JBool bool
  | JInt int
  | JFloat rat
  | JStr string
  | JArr "json list"
  | JObj "(string \<times> json) list"

text \<open>Python's truth value, the test of \<open>if not results\<close>.\<close>

fun truthy :: "json \<Rightarrow> bool" where
  "truthy JNull = False"
| "truthy (JBool b) = b"
| "truthy (JInt i) = (i \<noteq> 0)"
| "truthy (JFloat q) = (q \<noteq> 0)"
| "truthy (JStr s) = (s \<noteq> [])"
| "truthy (JArr xs) = (xs \<noteq> [])"
| "truthy (JObj kvs) = (kvs \<noteq> [])"

text \<open>
  \<open>subprocess.run(['github-linguist', ...], check=True, timeout=30)\<close> either raises
  (\<open>FileNotFoundError\<close> when the tool is not installed, \<open>CalledProcessError\<close> for a
  non-zero exit status, \<open>TimeoutExpired\<close> after 30 seconds) or completes with the text
  of standard output.
\<close>

datatype run_result = Raised exc | Completed string

text \<open>
  The three notices of the handlers (lines 71, 74 and 75). Each starts with a symbol
  outside ASCII; \<open>print\<close> raises when the console cannot take a line
  (\<open>UnicodeEncodeError\<close> for an encoding without the symbol). The console is a parameter:
  for each line, the exception \<open>print\<close> raises, or \<open>None\<close> when the line is printed.
\<close>

datatype line = Tool_not_found | Linguist_error exc | Git_not_found

type_synonym console = "line \<Rightarrow> exc option"

text \<open>
  \<open>json.loads\<close> is a parameter. The result is the value returned or the exception that
  leaves the function, and the lines printed. An exception raised by \<open>print\<close> inside a
  handler is not caught by the other handler of the same \<open>try\<close>.
\<close>

definition detect_with_linguist ::
  "console \<Rightarrow> (string \<Rightarrow> exc + json) \<Rightarrow> run_result \<Rightarrow> (exc + json) \<times> line list" where
  "detect_with_linguist print loads run =
     (let attempt =
        (case run of
           Raised e \<Rightarrow> Inl e
         | Completed stdout \<Rightarrow> loads stdout)
      in (case attempt of
            Inr j \<Rightarrow> (Inr j, [])
          | Inl e \<Rightarrow>
              if e = FileNotFoundError
              then (case print Tool_not_found of
                      Some x \<Rightarrow> (Inl x, [])
                    | None \<Rightarrow> (Inr JNull, [Tool_not_found]))
              else (case print (Linguist_error e) of
                      Some x \<Rightarrow> (Inl x, [])
                    | None \<Rightarrow>
                        (case print Git_not_found of
                           Some x \<Rightarrow> (Inl x, [Linguist_error e])
                         | None \<Rightarrow> (Inr JNull, [Linguist_error e, Git_not_found])))))"

text \<open>
  The variable \<open>results\<close> of \<open>main_menu\<close>: what the tool delivered, or the dictionary of
  \<open>pygments_language_detect\<close>. \<open>Number\<close> only arises at line 173.
\<close>

datatype results = Linguist json | Pygments breakdown | Number pynum

text \<open>
  Lines 167 to 171 of choice 1 and lines 180 to 184 of choice 2 are the same code: the
  external tool first, the internal detection if that gave nothing. The result is the
  value of \<open>results\<close> after them, or the exception that leaves \<open>main_menu\<close>, and the lines
  printed.
\<close>

definition main_menu_results ::
  "console \<Rightarrow> (string \<Rightarrow> exc + json) \<Rightarrow> run_result \<Rightarrow> guesser \<Rightarrow> namer \<Rightarrow> node
     \<Rightarrow> (exc + results) \<times> line list" where
  "main_menu_results print loads run g l path =
     (case detect_with_linguist print loads run of
        (Inl e, printed) \<Rightarrow> (Inl e, printed)
      | (Inr results, printed) \<Rightarrow>
          if \<not> truthy results
          then (case fst (pygments_language_detect g l path) of
                  Inl e \<Rightarrow> (Inl e, printed)
                | Inr r \<Rightarrow> (Inr (Pygments r), printed))
          else (Inr (Linguist results), printed))"

text \<open>
  What is handed to \<open>display_results\<close>. Choice 2 (line 186) hands \<open>results\<close> over as it
  is. Choice 1 (line 173) hands over \<open>results.get('breakdown', results)\<close> when \<open>results\<close>
  is a dictionary.
\<close>

datatype choice = Folder | Single_file

definition display_argument :: "choice \<Rightarrow> results \<Rightarrow> results" where
  "display_argument c results =
     (case c of
        Single_file \<Rightarrow> results
      | Folder \<Rightarrow>
          (case results of
             Linguist (JObj kvs) \<Rightarrow>
               (case map_of kvs ''breakdown'' of
                  Some j \<Rightarrow> Linguist j
                | None \<Rightarrow> results)
           | Pygments r \<Rightarrow>
               (case map_of r ''breakdown'' of
                  Some n \<Rightarrow> Number n
                | None \<Rightarrow> results)
           | _ \<Rightarrow> results))"

section \<open>Vocabulary of the properties\<close>

text \<open>The count a label has in \<open>language_stats\<close>; a label never seen has count 0.\<close>

definition count_of :: "(string \<times> nat) list \<Rightarrow> string \<Rightarrow> nat" where
  "count_of stats k = (case map_of stats k of None \<Rightarrow> 0 | Some v \<Rightarrow> v)"

text \<open>The regular files among the entries of a walk.\<close>

fun regular_files :: "node list \<Rightarrow> regular_file list" where
  "regular_files [] = []"
| "regular_files (Regular f # rest) = f # regular_files rest"
| "regular_files (other # rest) = regular_files rest"

text \<open>\<open>is_file()\<close> raises on none of the entries.\<close>

fun stat_ok :: "node list \<Rightarrow> bool" where
  "stat_ok [] = True"
| "stat_ok (Unstattable p err # rest) = False"
| "stat_ok (other # rest) = stat_ok rest"

text \<open>The entries before the first one on which \<open>is_file()\<close> raises.\<close>

fun reached :: "node list \<Rightarrow> node list" where
  "reached [] = []"
| "reached (Unstattable p err # rest) = []"
| "reached (other # rest) = other # reached rest"

text \<open>
  The float that line 131 stores for a count \<open>v\<close> out of \<open>t\<close> files when no operation
  overflows: \<open>round(v/t*100, 1)\<close>.
\<close>

definition rounded_percent :: "nat \<Rightarrow> nat \<Rightarrow> rat" where
  "rounded_percent v t =
     nearest_double
       (of_int (round_half_even
                  (nearest_double (nearest_double (of_nat v / of_nat t) * 100) * 10)) / 10)"

text \<open>
  The exception with which the external tool failed: the command raised, or its output
  is not JSON. \<open>None\<close> when the tool delivered a document.
\<close>

definition tool_failure :: "(string \<Rightarrow> exc + json) \<Rightarrow> run_result \<Rightarrow> exc option" where
  "tool_failure loads run =
     (case run of
        Raised e \<Rightarrow> Some e
      | Completed stdout \<Rightarrow> (case loads stdout of Inl e \<Rightarrow> Some e | Inr j \<Rightarrow> None))"

text \<open>The notices of the handler that catches \<open>e\<close>.\<close>

definition notices :: "exc \<Rightarrow> line list" where
  "notices e = (if e = FileNotFoundError then [Tool_not_found]
                else [Linguist_error e, Git_not_found])"

text \<open>
  What \<open>pygments_language_detect\<close> is to return for a path on which \<open>is_file()\<close> does not
  raise, stated without it: a regular file gives the single label with 100, a walk that
  meets regular files gives the rounded percentages of the final counts, any other walk
  the empty dictionary.
\<close>

definition expected_breakdown :: "guesser \<Rightarrow> namer \<Rightarrow> node \<Rightarrow> breakdown" where
  "expected_breakdown g l path =
     (case path of
        Regular f \<Rightarrow> fst (detect_file g l f)
      | _ \<Rightarrow>
          (let st = snd (scan g l (rglob path) initial)
           in if regular_files (rglob path) = [] then []
              else map (\<lambda>(k, v). (k, PyFloat (Finite (rounded_percent v (total_files st)))))
                     (language_stats st)))"

text \<open>Two consoles for concrete examples: one prints every line, one cannot encode any.\<close>

definition utf8_console :: console where
  "utf8_console msg = None"

definition ascii_console :: console where
  "ascii_console msg = Some UnicodeEncodeError"

text \<open>
  Two stand-ins for the lexer registry, for concrete examples: a registry in which no
  lexer matches any file name, and one that knows Python files by their suffix.
\<close>

definition no_lexer_guess :: guesser where
  "no_lexer_guess n t = Inl ClassNotFound"

definition no_lexer_for_filename :: namer where
  "no_lexer_for_filename n = Inl ClassNotFound"

definition python_only_guess :: guesser where
  "python_only_guess n t = (if suffix n = ''.py'' then Inr ''Python'' else Inl ClassNotFound)"

definition python_only_for_filename :: namer where
  "python_only_for_filename n =
     (if suffix n = ''.py'' then Inr ''Python'' else Inl ClassNotFound)"

definition no_json :: "string \<Rightarrow> exc + json" where
  "no_json s = Inl JSONDecodeError"

text \<open>Every key of \<open>language_stats\<close> occurs once and has a positive count.\<close>

definition well_formed :: "(string \<times> nat) list \<Rightarrow> bool" where
  "well_formed stats = (distinct (map fst stats) \<and> list_all (\<lambda>kv. 0 < snd kv) stats)"

text \<open>The result of line 131 when no operation raises or overflows.\<close>

definition as_percentages :: "(string \<times> nat) list \<Rightarrow> nat \<Rightarrow> breakdown" where
  "as_percentages stats t = map (\<lambda>(k, v). (k, PyFloat (Finite (rounded_percent v t)))) stats"

text \<open>
  A folder for concrete examples: a Python file, and below it a folder with an image.
\<close>

definition sample_repo :: node where
  "sample_repo =
     Directory ''repo''
       [Regular \<lparr>name = ''main.py'', io = Inr [0x78, 0x3D, 0x31]\<rparr>,
        Directory ''img'' [Regular \<lparr>name = ''logo.png'', io = Inr [0x89, 0x50]\<rparr>]]"

text \<open>
  A folder with a Python file and a sub-folder without search permission: the name of
  the file in it can be listed, \<open>stat\<close> on it fails with \<open>EACCES\<close>.
\<close>

definition locked_repo :: node where
  "locked_repo =
     Directory ''repo''
       [Regular \<lparr>name = ''main.py'', io = Inr [0x78, 0x3D, 0x31]\<rparr>,
        Directory ''locked'' [Unstattable ''secret.txt'' Access_denied]]"

section \<open>Properties of the classification of one file\<close>

lemma count_of_increment:
  "count_of (increment stats k) k' = count_of stats k' + (if k' = k then 1 else 0)"
  by (induction stats) (auto simp: count_of_def)



text \<open>
  Claim C2. A file whose suffix is not a binary extension, that can be read, and whose
  first 8192 bytes (or fewer, if the file is shorter) are not valid UTF-8 is labelled
  \<open>Binary\<close>, whatever its suffix and whatever the lexer registry: in single-file mode
  the result is \<open>{'Binary': 100}\<close>, in folder mode the file is counted under \<open>Binary\<close>.
\<close>

theorem undecodable_is_binary:
  assumes "suffix (name file) \<notin> binary_extensions"
    and "io file = Inr bs"
    and "decode (take 8192 bs) = Inl UnicodeDecodeError"
  shows "detect_file g l file = ([(''Binary'', PyInt 100)], [name file])
       \<and> pygments_language_detect g l (Regular file)
           = (Inr [(''Binary'', PyInt 100)], [name file])
       \<and> visit g l file st =
           st\<lparr>language_stats := increment (language_stats st) ''Binary'',
              total_files := total_files st + 1,
              opened := opened st @ [name file]\<rparr>"
  using assms by (simp add: detect_file_def pygments_language_detect_def visit_def tally_def)

text \<open>
  \<open>notes.txt\<close> holding \<open>h\<close> and then the first byte of a two-byte sequence, cut off.
\<close>

theorem undecodable_is_binary_witness:
  "suffix (name \<lparr>name = ''notes.txt'', io = Inr [0x68, 0xC3]\<rparr>) \<notin> binary_extensions
   \<and> decode (take 8192 [0x68, 0xC3]) = Inl UnicodeDecodeError
   \<and> detect_file python_only_guess python_only_for_filename
        \<lparr>name = ''notes.txt'', io = Inr [0x68, 0xC3]\<rparr>
       = ([(''Binary'', PyInt 100)], [''notes.txt''])"
proof -
  let ?f = "\<lparr>name = ''notes.txt'', io = Inr [0x68, 0xC3 :: byte]\<rparr>"
  have h1: "suffix (name ?f) \<notin> binary_extensions"
    by (simp add: suffix_def binary_extensions_def)
  have h2: "io ?f = Inr [0x68, 0xC3]" by simp
  have h3: "decode (take 8192 [0x68, 0xC3]) = Inl UnicodeDecodeError"
    by (simp add: decode_def)
  from undecodable_is_binary [OF h1 h2 h3] h1 h3 show ?thesis by simp
qed

text \<open>
  Claim C3 as the specification states it asks for the label \<open>Unknown\<close> when neither
  pygments entry point finds a lexer. It fails: the file \<open>notes\<close> with the text \<open>hi\<close>,
  under a registry without a matching lexer, is not labelled \<open>Unknown\<close>.
\<close>

theorem classification_miss_counterexample:
  "suffix (name \<lparr>name = ''notes'', io = Inr [0x68, 0x69]\<rparr>) \<notin> binary_extensions
   \<and> decode (take 8192 [0x68, 0x69]) = Inr [104, 105]
   \<and> no_lexer_guess ''notes'' [104, 105] = Inl ClassNotFound
   \<and> no_lexer_for_filename ''notes'' = Inl ClassNotFound
   \<and> fst (detect_file no_lexer_guess no_lexer_for_filename
             \<lparr>name = ''notes'', io = Inr [0x68, 0x69]\<rparr>)
       \<noteq> [(''Unknown'', PyInt 100)]"
  by (simp add: suffix_def binary_extensions_def decode_def no_lexer_guess_def
      no_lexer_for_filename_def detect_file_def)

text \<open>
  Claim C3, amended. When the text decodes, \<open>guess_lexer_for_filename\<close> raises
  \<open>ClassNotFound\<close> and \<open>get_lexer_for_filename\<close> raises \<open>ClassNotFound\<close> as well, the
  second exception is raised inside the handler of the first and reaches
  \<open>except Exception\<close>: the label is \<open>Error\<close>, in both modes. No exception leaves the
  function.
\<close>

theorem classification_miss_is_error:
  assumes "suffix (name file) \<notin> binary_extensions"
    and "io file = Inr bs"
    and "decode (take 8192 bs) = Inr text"
    and "g (name file) text = Inl ClassNotFound"
    and "l (name file) = Inl ClassNotFound"
  shows "detect_file g l file = ([(''Error'', PyInt 100)], [name file])
       \<and> pygments_language_detect g l (Regular file)
           = (Inr [(''Error'', PyInt 100)], [name file])
       \<and> visit g l file st =
           st\<lparr>language_stats := increment (language_stats st) ''Error'',
              total_files := total_files st + 1,
              opened := opened st @ [name file]\<rparr>"
  using assms by (simp add: detect_file_def pygments_language_detect_def visit_def tally_def)

text \<open>The same file \<open>notes\<close>: its label is \<open>Error\<close>.\<close>

theorem classification_miss_is_error_witness:
  "suffix (name \<lparr>name = ''notes'', io = Inr [0x68, 0x69]\<rparr>) \<notin> binary_extensions
   \<and> decode (take 8192 [0x68, 0x69]) = Inr [104, 105]
   \<and> detect_file no_lexer_guess no_lexer_for_filename
        \<lparr>name = ''notes'', io = Inr [0x68, 0x69]\<rparr>
       = ([(''Error'', PyInt 100)], [''notes''])"
proof -
  let ?f = "\<lparr>name = ''notes'', io = Inr [0x68, 0x69 :: byte]\<rparr>"
  have h1: "suffix (name ?f) \<notin> binary_extensions"
    by (simp add: suffix_def binary_extensions_def)
  have h2: "io ?f = Inr [0x68, 0x69]" by simp
  have h3: "decode (take 8192 [0x68, 0x69]) = Inr [104, 105]"
    by (simp add: decode_def)
  have h4: "no_lexer_guess (name ?f) [104, 105] = Inl ClassNotFound"
    by (simp add: no_lexer_guess_def)
  have h5: "no_lexer_for_filename (name ?f) = Inl ClassNotFound"
    by (simp add: no_lexer_for_filename_def)
  from classification_miss_is_error
         [where g = no_lexer_guess and l = no_lexer_for_filename, OF h1 h2 h3 h4 h5] h1 h3
  show ?thesis by simp
qed

text \<open>
  Claim C4 as the specification states it lets no failure on a file that cannot be read
  leave the classification. It fails for a file below a folder without search
  permission: \<open>is_file()\<close> is called outside both \<open>try\<close> blocks and raises
  \<open>PermissionError\<close>, which leaves \<open>pygments_language_detect\<close> in single-file mode and ends
  the walk in folder mode; no label \<open>Error\<close> is given.
\<close>

theorem read_failure_counterexample:
  "pygments_language_detect no_lexer_guess no_lexer_for_filename
     (Unstattable ''secret.txt'' Access_denied) = (Inl PermissionError, [])
   \<and> pygments_language_detect no_lexer_guess no_lexer_for_filename locked_repo
       = (Inl PermissionError, [''main.py''])"
  by (simp add: pygments_language_detect_def locked_repo_def rglob_def initial_def
      stat_exception_def visit_def tally_def suffix_def binary_extensions_def decode_def
      no_lexer_guess_def no_lexer_for_filename_def)

text \<open>
  Claim C4, amended. For a file that \<open>is_file()\<close> has accepted, when \<open>open\<close> or \<open>read\<close>
  raises (they are called only if the suffix is not a binary extension), the label is
  \<open>Error\<close>: single-file mode returns \<open>{'Error': 100}\<close> as a value, so that exception is
  not propagated; folder mode adds one to the count of \<open>Error\<close> and leaves the count of
  \<open>Binary\<close> unchanged.
\<close>

theorem read_failure_is_error:
  assumes "suffix (name file) \<notin> binary_extensions"
    and "io file = Inl e"
  shows "detect_file g l file = ([(''Error'', PyInt 100)], [name file])
       \<and> pygments_language_detect g l (Regular file)
           = (Inr [(''Error'', PyInt 100)], [name file])
       \<and> visit g l file st =
           st\<lparr>language_stats := increment (language_stats st) ''Error'',
              total_files := total_files st + 1,
              opened := opened st @ [name file]\<rparr>
       \<and> count_of (language_stats (visit g l file st)) ''Error''
           = count_of (language_stats st) ''Error'' + 1
       \<and> count_of (language_stats (visit g l file st)) ''Binary''
           = count_of (language_stats st) ''Binary''"
  using assms
  by (simp add: detect_file_def pygments_language_detect_def visit_def tally_def
      count_of_increment)

text \<open>\<open>secret.txt\<close> cannot be opened.\<close>

theorem read_failure_is_error_witness:
  "suffix (name \<lparr>name = ''secret.txt'', io = Inl OSError\<rparr>) \<notin> binary_extensions
   \<and> pygments_language_detect python_only_guess python_only_for_filename
        (Regular \<lparr>name = ''secret.txt'', io = Inl OSError\<rparr>)
       = (Inr [(''Error'', PyInt 100)], [''secret.txt''])"
proof -
  let ?f = "\<lparr>name = ''secret.txt'', io = Inl OSError\<rparr> :: regular_file"
  have h1: "suffix (name ?f) \<notin> binary_extensions"
    by (simp add: suffix_def binary_extensions_def)
  have h2: "io ?f = Inl OSError" by simp
  from read_failure_is_error [OF h1 h2] h1 show ?thesis by simp
qed

text \<open>
  Claim C8 as the specification states it makes the match of the extension insensitive
  to case. It fails: of two unreadable files, \<open>photo.PNG\<close> is opened and labelled
  \<open>Error\<close>, \<open>photo.png\<close> is labelled \<open>Binary\<close> unopened.
\<close>

theorem extension_case_counterexample:
  "detect_file no_lexer_guess no_lexer_for_filename \<lparr>name = ''photo.PNG'', io = Inl OSError\<rparr>
     = ([(''Error'', PyInt 100)], [''photo.PNG''])
   \<and> detect_file no_lexer_guess no_lexer_for_filename \<lparr>name = ''photo.png'', io = Inl OSError\<rparr>
     = ([(''Binary'', PyInt 100)], [])"
  by (simp add: suffix_def binary_extensions_def detect_file_def)

text \<open>
  Claim C8, amended. The match is exact and sensitive to case: a file is resolved
  without being opened precisely when \<open>Path.suffix\<close> is literally one of the eight
  lower-case strings, in both modes. The suffixes \<open>.PNG\<close> and \<open>.Zip\<close> are not among them,
  so such files are opened and classified by their content.
\<close>

theorem extension_match_is_exact:
  "(snd (detect_file g l file) = [] \<longleftrightarrow> suffix (name file) \<in> binary_extensions)
   \<and> (opened (visit g l file st) = opened st \<longleftrightarrow> suffix (name file) \<in> binary_extensions)
   \<and> suffix ''photo.PNG'' = ''.PNG'' \<and> ''.PNG'' \<notin> binary_extensions
   \<and> suffix ''archive.Zip'' = ''.Zip'' \<and> ''.Zip'' \<notin> binary_extensions"
  by (auto simp: detect_file_def visit_def tally_def suffix_def binary_extensions_def Let_def
      split: sum.splits)

text \<open>\<open>photo.PNG\<close> is opened; \<open>photo.png\<close> is not.\<close>

theorem extension_match_is_exact_witness:
  "snd (detect_file no_lexer_guess no_lexer_for_filename
          \<lparr>name = ''photo.PNG'', io = Inr []\<rparr>) \<noteq> []
   \<and> suffix (name \<lparr>name = ''photo.PNG'', io = Inr []\<rparr>) \<notin> binary_extensions
   \<and> snd (detect_file no_lexer_guess no_lexer_for_filename
          \<lparr>name = ''photo.png'', io = Inr []\<rparr>) = []"
proof -
  have h1: "suffix (name \<lparr>name = ''photo.PNG'', io = Inr []\<rparr>) \<notin> binary_extensions"
    by (simp add: suffix_def binary_extensions_def)
  have h2: "suffix (name \<lparr>name = ''photo.png'', io = Inr []\<rparr>) \<in> binary_extensions"
    by (simp add: suffix_def binary_extensions_def)
  from h1 h2
    extension_match_is_exact [of no_lexer_guess no_lexer_for_filename
      "\<lparr>name = ''photo.PNG'', io = Inr []\<rparr>"]
    extension_match_is_exact [of no_lexer_guess no_lexer_for_filename
      "\<lparr>name = ''photo.png'', io = Inr []\<rparr>"]
  show ?thesis by blast
qed

section \<open>Properties of the folder walk\<close>

lemma sum_increment:
  "sum_list (map snd (increment stats k)) = sum_list (map snd stats) + 1"
  by (induction stats) auto

lemma visit_counts_once:
  "\<exists>label. language_stats (visit g l f st) = increment (language_stats st) label
         \<and> total_files (visit g l f st) = total_files st + 1"
  by (auto simp: visit_def tally_def Let_def split: sum.splits)

lemma visit_keeps_balance:
  assumes "sum_list (map snd (language_stats st)) = total_files st"
  shows "sum_list (map snd (language_stats (visit g l f st))) = total_files (visit g l f st)"
proof -
  obtain label where "language_stats (visit g l f st) = increment (language_stats st) label"
    and "total_files (visit g l f st) = total_files st + 1"
    using visit_counts_once by blast
  with assms show ?thesis by (simp add: sum_increment)
qed

lemma scan_keeps_balance:
  "sum_list (map snd (language_stats st)) = total_files st \<Longrightarrow>
   sum_list (map snd (language_stats (snd (scan g l entries st))))
     = total_files (snd (scan g l entries st))"
proof (induction entries arbitrary: st)
  case Nil
  then show ?case by simp
next
  case (Cons entry rest)
  show ?case
  proof (cases entry)
    case (Regular f)
    with Cons show ?thesis by (simp add: visit_keeps_balance)
  qed (use Cons in simp_all)
qed

lemma scan_total_files:
  "total_files (snd (scan g l entries st))
     = total_files st + length (regular_files (reached entries))"
proof (induction entries arbitrary: st)
  case Nil
  then show ?case by simp
next
  case (Cons entry rest)
  show ?case
  proof (cases entry)
    case (Regular f)
    obtain label where "total_files (visit g l f st) = total_files st + 1"
      using visit_counts_once by blast
    with Cons Regular show ?thesis by simp
  qed (use Cons in simp_all)
qed

lemma scan_stopped: "fst (scan g l entries st) = None \<longleftrightarrow> stat_ok entries"
proof (induction entries arbitrary: st)
  case Nil
  then show ?case by simp
next
  case (Cons entry rest)
  then show ?case by (cases entry) simp_all
qed


lemma reached_stat_ok: "stat_ok entries \<Longrightarrow> reached entries = entries"
proof (induction entries)
  case Nil
  then show ?case by simp
next
  case (Cons entry rest)
  then show ?case by (cases entry) simp_all
qed

text \<open>
  Claim C10. The loop body adds one to \<open>total_files\<close> and one to the count of exactly
  one label, every other count staying as it was. Hence after any number \<open>n\<close> of entries
  of the walk (so after each file, and at the end, and also when \<open>is_file()\<close> has ended
  the loop) the counts of \<open>language_stats\<close> add up to \<open>total_files\<close>, which is the number
  of regular files met so far: all regular files among the \<open>n\<close> entries when \<open>is_file()\<close>
  raised on none of them.
\<close>

theorem counts_sum_to_total_files:
  "(\<exists>label. total_files (visit g l f st) = total_files st + 1
       \<and> (\<forall>k. count_of (language_stats (visit g l f st)) k
                = count_of (language_stats st) k + (if k = label then 1 else 0)))
   \<and> sum_list (map snd (language_stats (snd (scan g l (take n (rglob path)) initial))))
       = total_files (snd (scan g l (take n (rglob path)) initial))
   \<and> total_files (snd (scan g l (take n (rglob path)) initial))
       = length (regular_files (reached (take n (rglob path))))
   \<and> (stat_ok (take n (rglob path)) \<longrightarrow>
        fst (scan g l (take n (rglob path)) initial) = None
        \<and> total_files (snd (scan g l (take n (rglob path)) initial))
            = length (regular_files (take n (rglob path))))"
proof -
  obtain label where a: "language_stats (visit g l f st) = increment (language_stats st) label"
    and b: "total_files (visit g l f st) = total_files st + 1"
    using visit_counts_once by blast
  have "\<forall>k. count_of (language_stats (visit g l f st)) k
                = count_of (language_stats st) k + (if k = label then 1 else 0)"
    by (simp add: a count_of_increment)
  with b have 1: "\<exists>label. total_files (visit g l f st) = total_files st + 1
       \<and> (\<forall>k. count_of (language_stats (visit g l f st)) k
                = count_of (language_stats st) k + (if k = label then 1 else 0))"
    by blast
  have 2: "sum_list (map snd (language_stats (snd (scan g l (take n (rglob path)) initial))))
       = total_files (snd (scan g l (take n (rglob path)) initial))"
    by (rule scan_keeps_balance) (simp add: initial_def)
  have 3: "total_files (snd (scan g l (take n (rglob path)) initial))
       = length (regular_files (reached (take n (rglob path))))"
    by (simp add: scan_total_files initial_def)
  have 4: "fst (scan g l (take n (rglob path)) initial) = None
        \<and> total_files (snd (scan g l (take n (rglob path)) initial))
            = length (regular_files (take n (rglob path)))"
    if "stat_ok (take n (rglob path))"
    using that 3 by (simp add: scan_stopped reached_stat_ok)
  from 1 2 3 4 show ?thesis by blast
qed

text \<open>
  The sample folder after its first two entries (the Python file and the folder \<open>img\<close>),
  and after all three.
\<close>

theorem counts_sum_to_total_files_witness:
  "stat_ok (take 2 (rglob sample_repo)) \<and> stat_ok (take 3 (rglob sample_repo))
   \<and> sum_list (map snd (language_stats (snd
        (scan python_only_guess python_only_for_filename (take 2 (rglob sample_repo)) initial))))
      = 1
   \<and> sum_list (map snd (language_stats (snd
        (scan python_only_guess python_only_for_filename (take 3 (rglob sample_repo)) initial))))
      = 2"
proof -
  let ?after = "\<lambda>n. snd (scan python_only_guess python_only_for_filename
                          (take n (rglob sample_repo)) initial)"
  have ok2: "stat_ok (take 2 (rglob sample_repo))"
    by (simp add: sample_repo_def rglob_def)
  have ok3: "stat_ok (take 3 (rglob sample_repo))"
    by (simp add: sample_repo_def rglob_def)
  have len2: "length (regular_files (take 2 (rglob sample_repo))) = 1"
    by (simp add: sample_repo_def rglob_def)
  have len3: "length (regular_files (take 3 (rglob sample_repo))) = 2"
    by (simp add: sample_repo_def rglob_def)
  have sum: "sum_list (map snd (language_stats (?after n))) = total_files (?after n)"
    and total: "stat_ok (take n (rglob sample_repo)) \<longrightarrow>
                total_files (?after n) = length (regular_files (take n (rglob sample_repo)))"
    for n
    using counts_sum_to_total_files
            [of python_only_guess python_only_for_filename _ _ n sample_repo]
    by blast+
  have "sum_list (map snd (language_stats (?after 2))) = 1"
    using sum [of 2] total [of 2] ok2 len2 by simp
  moreover have "sum_list (map snd (language_stats (?after 3))) = 2"
    using sum [of 3] total [of 3] ok3 len3 by simp
  ultimately show ?thesis using ok2 ok3 by blast
qed




lemma detect_folder:
  "is_file path = Inr False \<Longrightarrow>
   pygments_language_detect g l path =
     (case fst (scan g l (rglob path) initial) of
        Some e \<Rightarrow> Inl e
      | None \<Rightarrow>
          if total_files (snd (scan g l (rglob path) initial)) > 0
          then percentages (language_stats (snd (scan g l (rglob path) initial)))
                 (total_files (snd (scan g l (rglob path) initial)))
          else Inr [],
      opened (snd (scan g l (rglob path) initial)))"
  by (cases "scan g l (rglob path) initial")
    (simp add: pygments_language_detect_def split: option.splits)



section \<open>The percentages\<close>

subsection \<open>Rounding errors\<close>

lemma pow2_powi: "pow2 e = 2 powi e"
  by (simp add: pow2_def power_int_def power_inverse field_simps)

lemma pow2_pos: "0 < pow2 e"
  by (simp add: pow2_powi)

lemma pow2_mono: "a \<le> b \<Longrightarrow> pow2 a \<le> pow2 b"
  by (simp add: pow2_powi power_int_increasing)

lemma pow2_half: "pow2 e / 2 = pow2 (e - 1)"
  by (simp add: pow2_powi power_int_diff)

lemma round_half_even_error: "\<bar>of_int (round_half_even y) - y\<bar> \<le> 1 / 2"
proof -
  have "of_int \<lfloor>y\<rfloor> \<le> y" "y < of_int \<lfloor>y\<rfloor> + 1"
    by linarith+
  then show ?thesis
    by (auto simp: round_half_even_def Let_def)
qed

lemma round_half_even_nonneg: "0 \<le> y \<Longrightarrow> 0 \<le> round_half_even y"
  by (auto simp: round_half_even_def Let_def)

lemma exponent_le:
  assumes "0 < x" and "x < 2 ^ Suc m"
  shows "exponent x \<le> int m"
proof (cases "1 \<le> x")
  case True
  have "\<lfloor>x\<rfloor> < 2 ^ Suc m"
    using assms(2) by (metis floor_less_iff of_int_numeral of_int_power)
  moreover have "nat (int (Suc m)) = Suc m" by (rule nat_int)
  ultimately have "bitlen \<lfloor>x\<rfloor> \<le> int (Suc m)"
    unfolding bitlen_le_iff_power by (simp del: of_nat_Suc)
  with True show ?thesis by (simp add: exponent_def)
next
  case False
  have "0 \<le> bitlen (\<lceil>1 / x\<rceil> - 1)" by (rule bitlen_nonneg)
  with False show ?thesis by (simp add: exponent_def)
qed

lemma nearest_double_nonneg: "0 \<le> x \<Longrightarrow> 0 \<le> nearest_double x"
  by (auto simp: nearest_double_def Let_def pow2_pos less_imp_le
      intro!: mult_nonneg_nonneg round_half_even_nonneg divide_nonneg_pos)

lemma nearest_double_error:
  assumes "0 \<le> x" and "x < 2 ^ Suc m"
  shows "\<bar>nearest_double x - x\<bar> \<le> pow2 (int m - 53)"
proof (cases "x = 0")
  case True
  then show ?thesis by (simp add: nearest_double_def less_imp_le pow2_pos)
next
  case False
  with assms have pos: "0 < x" by simp
  define e where "e = max (exponent x) (- 1022)"
  define u where "u = pow2 (e - 52)"
  have u: "0 < u" by (simp add: u_def pow2_pos)
  have "e \<le> int m" using exponent_le [OF pos assms(2)] by (simp add: e_def)
  then have "u \<le> pow2 (int m - 52)" by (simp add: u_def pow2_mono)
  then have half: "u / 2 \<le> pow2 (int m - 53)"
    using pow2_half [of "int m - 52"] by simp
  have nd: "nearest_double x = of_int (round_half_even (x / u)) * u"
    using pos by (simp add: nearest_double_def Let_def e_def u_def)
  have "nearest_double x - x = (of_int (round_half_even (x / u)) - x / u) * u"
    using u by (simp add: nd field_simps)
  then have "\<bar>nearest_double x - x\<bar> = \<bar>of_int (round_half_even (x / u)) - x / u\<bar> * u"
    using u by (simp add: abs_mult)
  also have "\<dots> \<le> (1 / 2) * u"
    using round_half_even_error [of "x / u"] u by (intro mult_right_mono) simp_all
  finally show ?thesis using half by simp
qed


lemma small_error:
  assumes "m \<le> 6"
  shows "pow2 (int m - 53) \<le> 1 / 1000000"
proof -
  have "pow2 (int m - 53) \<le> pow2 (- 47)"
    using assms by (intro pow2_mono) simp
  also have "\<dots> \<le> 1 / 1000000" by (simp add: pow2_def)
  finally show ?thesis .
qed

lemma no_overflow:
  assumes "0 \<le> q" and "q < 128"
  shows "\<not> overflows q"
proof -
  have "(2::rat) ^ 7 \<le> 2 ^ 1024" by (rule power_increasing) simp_all
  then have "(128::rat) \<le> 2 ^ 1024" by simp
  with assms show ?thesis by (simp add: overflows_def)
qed

lemma percentage_value:
  assumes "0 < v" and "v \<le> t"
  shows "percentage v t = Inr (PyFloat (Finite (rounded_percent v t)))
       \<and> \<bar>rounded_percent v t - 100 * of_nat v / of_nat t\<bar> \<le> 1 / 10"
proof -
  define x :: rat where "x = of_nat v / of_nat t"
  define a where "a = nearest_double x"
  define b where "b = nearest_double (a * 100)"
  define c :: rat where "c = of_int (round_half_even (b * 10)) / 10"
  define d where "d = nearest_double c"
  from assms have t: "0 < t" by simp
  have x0: "0 \<le> x" by (simp add: x_def)
  have x1: "x \<le> 1" using assms t by (simp add: x_def)
  have "\<bar>a - x\<bar> \<le> pow2 (int 0 - 53)"
    unfolding a_def using x0 x1 by (intro nearest_double_error) simp_all
  then have ea: "\<bar>a - x\<bar> \<le> 1 / 1000000"
    using small_error [of 0] by simp
  have a0: "0 \<le> a" unfolding a_def using x0 by (rule nearest_double_nonneg)
  have a1: "a < 128" using ea x1 by linarith
  have y0: "0 \<le> a * 100" using a0 by simp
  have "a * 100 < 128" using ea x1 by linarith
  then have y1: "a * 100 < 2 ^ Suc 6" by simp
  have "\<bar>b - a * 100\<bar> \<le> pow2 (int 6 - 53)"
    unfolding b_def using y0 y1 by (rule nearest_double_error)
  then have eb: "\<bar>b - a * 100\<bar> \<le> 1 / 1000000"
    using small_error [of 6] by simp
  have b0: "0 \<le> b" unfolding b_def using y0 by (rule nearest_double_nonneg)
  have b1: "b < 128" using eb ea x1 by linarith
  have "\<bar>of_int (round_half_even (b * 10)) - b * 10\<bar> \<le> 1 / 2"
    by (rule round_half_even_error)
  then have ec: "\<bar>c - b\<bar> \<le> 1 / 20" by (simp add: c_def field_simps)
  have c0: "0 \<le> c" using b0 by (simp add: c_def round_half_even_nonneg)
  have "c < 128" using ec eb ea x1 by linarith
  then have c1: "c < 2 ^ Suc 6" by simp
  have "\<bar>d - c\<bar> \<le> pow2 (int 6 - 53)"
    unfolding d_def using c0 c1 by (rule nearest_double_error)
  then have ed: "\<bar>d - c\<bar> \<le> 1 / 1000000"
    using small_error [of 6] by simp
  have d_eq: "rounded_percent v t = d"
    by (simp add: rounded_percent_def d_def c_def b_def a_def x_def)
  have "true_divide v t = Inr a"
    using t no_overflow [OF a0 a1] by (simp add: true_divide_def Let_def a_def x_def)
  moreover have "float_mul a 100 = Finite b"
    using no_overflow [OF b0 b1] by (simp add: float_mul_def Let_def b_def)
  moreover have "round1 (Finite b) = Finite d"
    by (simp add: round1_def d_def c_def)
  ultimately have 1: "percentage v t = Inr (PyFloat (Finite (rounded_percent v t)))"
    by (simp add: percentage_def d_eq)
  have "100 * of_nat v / of_nat t = 100 * x" by (simp add: x_def)
  moreover have "\<bar>d - 100 * x\<bar> \<le> 1 / 10" using ea eb ec ed by linarith
  ultimately have 2: "\<bar>rounded_percent v t - 100 * of_nat v / of_nat t\<bar> \<le> 1 / 10"
    by (simp add: d_eq)
  from 1 2 show ?thesis ..
qed

subsection \<open>The counts during the walk\<close>

lemma keys_increment:
  "map fst (increment stats k)
     = (if k \<in> set (map fst stats) then map fst stats else map fst stats @ [k])"
  by (induction stats) (force split: if_splits)+

lemma positive_increment:
  "list_all (\<lambda>kv. 0 < snd kv) stats \<Longrightarrow> list_all (\<lambda>kv. 0 < snd kv) (increment stats k)"
  by (induction stats) auto

lemma well_formed_increment: "well_formed stats \<Longrightarrow> well_formed (increment stats k)"
  by (simp add: well_formed_def keys_increment positive_increment)

lemma visit_well_formed:
  "well_formed (language_stats st) \<Longrightarrow> well_formed (language_stats (visit g l f st))"
  using visit_counts_once [of g l f st] by (auto simp: well_formed_increment)

lemma scan_well_formed:
  "well_formed (language_stats st) \<Longrightarrow> well_formed (language_stats (snd (scan g l entries st)))"
proof (induction entries arbitrary: st)
  case Nil
  then show ?case by simp
next
  case (Cons entry rest)
  show ?case
  proof (cases entry)
    case (Regular f)
    with Cons show ?thesis by (simp add: visit_well_formed)
  qed (use Cons in simp_all)
qed

lemma percentages_value:
  assumes "list_all (\<lambda>kv. 0 < snd kv \<and> snd kv \<le> t) stats"
  shows "percentages stats t = Inr (as_percentages stats t)"
  using assms
proof (induction stats)
  case Nil
  then show ?case by (simp add: as_percentages_def)
next
  case (Cons kv rest)
  obtain k v where kv: "kv = (k, v)" by (cases kv)
  from Cons.prems have "0 < v" "v \<le> t" by (simp_all add: kv)
  then have "percentage v t = Inr (PyFloat (Finite (rounded_percent v t)))"
    using percentage_value by blast
  moreover from Cons have "percentages rest t = Inr (as_percentages rest t)" by simp
  ultimately show ?case by (simp add: kv as_percentages_def)
qed

lemma percent_sum_error:
  assumes "list_all (\<lambda>kv. 0 < snd kv \<and> snd kv \<le> t) stats"
  shows "\<bar>(\<Sum>(k, v)\<leftarrow>stats. rounded_percent v t)
          - 100 * of_nat (sum_list (map snd stats)) / of_nat t\<bar>
         \<le> of_nat (length stats) / 10"
  using assms
proof (induction stats)
  case Nil
  then show ?case by simp
next
  case (Cons kv rest)
  obtain k v where kv: "kv = (k, v)" by (cases kv)
  from Cons.prems have "0 < v" "v \<le> t" by (simp_all add: kv)
  then have one: "\<bar>rounded_percent v t - 100 * of_nat v / of_nat t\<bar> \<le> 1 / 10"
    using percentage_value by blast
  from Cons have ih: "\<bar>(\<Sum>(k, v)\<leftarrow>rest. rounded_percent v t)
          - 100 * of_nat (sum_list (map snd rest)) / of_nat t\<bar>
         \<le> of_nat (length rest) / 10" by simp
  have "100 * of_nat (sum_list (map snd (kv # rest))) / (of_nat t :: rat)
        = 100 * of_nat v / of_nat t + 100 * of_nat (sum_list (map snd rest)) / of_nat t"
    by (simp add: kv add_divide_distrib distrib_left)
  moreover have "(\<Sum>(k, v)\<leftarrow>kv # rest. rounded_percent v t)
        = rounded_percent v t + (\<Sum>(k, v)\<leftarrow>rest. rounded_percent v t)"
    by (simp add: kv)
  moreover have "(of_nat (length (kv # rest)) :: rat) / 10 = 1 / 10 + of_nat (length rest) / 10"
    by (simp add: add_divide_distrib)
  ultimately show ?case using one ih by linarith
qed

lemma counts_bounded:
  assumes "well_formed stats" and "sum_list (map snd stats) = t"
  shows "list_all (\<lambda>kv. 0 < snd kv \<and> snd kv \<le> t) stats"
proof -
  have "snd kv \<le> t" if "kv \<in> set stats" for kv
    using that assms(2) member_le_sum_list [of "snd kv" "map snd stats"] by auto
  with assms(1) show ?thesis by (auto simp: well_formed_def list_all_iff)
qed


lemma initial_well_formed: "well_formed (language_stats initial)"
  by (simp add: initial_def well_formed_def)

lemma initial_balance: "sum_list (map snd (language_stats initial)) = total_files initial"
  by (simp add: initial_def)

lemma scan_percentages:
  "percentages (language_stats (snd (scan g l entries initial)))
     (total_files (snd (scan g l entries initial)))
     = Inr (as_percentages (language_stats (snd (scan g l entries initial)))
              (total_files (snd (scan g l entries initial))))"
  by (intro percentages_value counts_bounded scan_well_formed scan_keeps_balance
      initial_well_formed initial_balance)

text \<open>
  When \<open>is_file()\<close> raises neither on the path nor on an entry of the walk, the function
  returns a dictionary, and it is the expected one.
\<close>

lemma detect_expected:
  assumes "stat_ok (path # rglob path)"
  shows "fst (pygments_language_detect g l path) = Inr (expected_breakdown g l path)"
proof (cases path)
  case (Regular f)
  then show ?thesis
    by (simp add: pygments_language_detect_def expected_breakdown_def split: prod.splits)
next
  case (Directory d es)
  then have dir: "is_file path = Inr False" by simp
  from assms Directory have ok: "stat_ok (rglob path)" by simp
  then have none: "fst (scan g l (rglob path) initial) = None"
    by (simp add: scan_stopped)
  have total: "total_files (snd (scan g l (rglob path) initial))
                 = length (regular_files (rglob path))"
    using ok by (simp add: scan_total_files reached_stat_ok initial_def)
  have result: "fst (pygments_language_detect g l path)
      = (if regular_files (rglob path) = [] then Inr []
         else Inr (as_percentages (language_stats (snd (scan g l (rglob path) initial)))
                     (total_files (snd (scan g l (rglob path) initial)))))"
    unfolding detect_folder [OF dir] none scan_percentages
    by (simp add: total)
  have "expected_breakdown g l path
      = (if regular_files (rglob path) = [] then []
         else as_percentages (language_stats (snd (scan g l (rglob path) initial)))
                (total_files (snd (scan g l (rglob path) initial))))"
    by (simp add: Directory expected_breakdown_def as_percentages_def Let_def)
  with result show ?thesis by simp
next
  case (Other q)
  then show ?thesis
    by (simp add: pygments_language_detect_def expected_breakdown_def rglob_def initial_def)
next
  case (Unstattable q err)
  with assms show ?thesis by simp
qed

text \<open>
  Claim C5. When the walk meets at least one regular file (and \<open>is_file()\<close> raises on no
  entry, so that there is a result), the function returns, for each label of
  \<open>language_stats\<close> (each occurs once), the float \<open>round(count/total_files*100, 1)\<close>
  computed from that label's count alone: no operation raises or overflows, and nothing
  is renormalised. The exact sum of the floats returned differs from 100 by at most 0.1
  times the number of labels.
\<close>

theorem percentages_rounded_per_label:
  assumes "regular_files (rglob path) \<noteq> []" and "stat_ok (rglob path)"
  shows "let st = snd (scan g l (rglob path) initial);
             stats = language_stats st;
             t = total_files st
         in fst (scan g l (rglob path) initial) = None
          \<and> t = length (regular_files (rglob path))
          \<and> distinct (map fst stats)
          \<and> fst (pygments_language_detect g l path)
              = Inr (map (\<lambda>(k, v). (k, PyFloat (Finite (rounded_percent v t)))) stats)
          \<and> \<bar>(\<Sum>(k, v)\<leftarrow>stats. rounded_percent v t) - 100\<bar> \<le> of_nat (length stats) / 10"
proof -
  define st where "st = snd (scan g l (rglob path) initial)"
  define stats where "stats = language_stats st"
  define t where "t = total_files st"
  have none: "fst (scan g l (rglob path) initial) = None"
    using assms(2) by (simp add: scan_stopped)
  have t: "t = length (regular_files (rglob path))"
    using assms(2) by (simp add: t_def st_def scan_total_files reached_stat_ok initial_def)
  with assms have pos: "0 < t" by simp
  have wf: "well_formed stats"
    unfolding stats_def st_def by (intro scan_well_formed initial_well_formed)
  have bal: "sum_list (map snd stats) = t"
    unfolding stats_def st_def t_def by (intro scan_keeps_balance initial_balance)
  have bounded: "list_all (\<lambda>kv. 0 < snd kv \<and> snd kv \<le> t) stats"
    using wf bal by (rule counts_bounded)
  from assms(1) obtain d es where path: "path = Directory d es"
    by (cases path) (simp_all add: rglob_def)
  then have dir: "is_file path = Inr False" by simp
  have "fst (pygments_language_detect g l path) = percentages stats t"
    using pos none by (simp add: detect_folder [OF dir] stats_def t_def st_def)
  then have res: "fst (pygments_language_detect g l path)
              = Inr (map (\<lambda>(k, v). (k, PyFloat (Finite (rounded_percent v t)))) stats)"
    using percentages_value [OF bounded] by (simp add: as_percentages_def)
  have "100 * of_nat (sum_list (map snd stats)) / (of_nat t :: rat) = 100"
    using pos by (simp add: bal)
  with percent_sum_error [OF bounded]
  have sum: "\<bar>(\<Sum>(k, v)\<leftarrow>stats. rounded_percent v t) - 100\<bar> \<le> of_nat (length stats) / 10"
    by simp
  from none t wf res sum show ?thesis
    unfolding Let_def st_def [symmetric] stats_def [symmetric] t_def [symmetric]
    by (simp add: well_formed_def)
qed

text \<open>The sample folder holds two regular files.\<close>

theorem percentages_rounded_per_label_witness:
  "regular_files (rglob sample_repo) \<noteq> [] \<and> stat_ok (rglob sample_repo)
   \<and> (let st = snd (scan python_only_guess python_only_for_filename (rglob sample_repo) initial);
           stats = language_stats st;
           t = total_files st
       in fst (scan python_only_guess python_only_for_filename (rglob sample_repo) initial) = None
        \<and> t = length (regular_files (rglob sample_repo))
        \<and> distinct (map fst stats)
        \<and> fst (pygments_language_detect python_only_guess python_only_for_filename sample_repo)
            = Inr (map (\<lambda>(k, v). (k, PyFloat (Finite (rounded_percent v t)))) stats)
        \<and> \<bar>(\<Sum>(k, v)\<leftarrow>stats. rounded_percent v t) - 100\<bar> \<le> of_nat (length stats) / 10)"
proof -
  have h: "regular_files (rglob sample_repo) \<noteq> []"
    by (simp add: sample_repo_def rglob_def)
  have ok: "stat_ok (rglob sample_repo)"
    by (simp add: sample_repo_def rglob_def)
  from h ok percentages_rounded_per_label
              [OF h ok, of python_only_guess python_only_for_filename]
  show ?thesis by (intro conjI)
qed

subsection \<open>Worked examples\<close>

text \<open>
  One file out of two is \<open>50.0\<close>. One file out of three is the float printed as
  \<open>33.3\<close>, so three labels with one file each add up to about \<open>99.9\<close>: the percentages
  are not renormalised.
\<close>

lemma rounded_percent_half: "rounded_percent 1 2 = 50"
  by code_simp

lemma rounded_percent_third: "rounded_percent 1 3 = 2343279181116211 / 70368744177664"
  by code_simp

text \<open>The sample folder: the Python file is opened, the image is not.\<close>

lemma sample_repo_walk:
  "scan python_only_guess python_only_for_filename (rglob sample_repo) initial
     = (None, \<lparr>language_stats = [(''Python'', 1), (''Binary'', 1)], total_files = 2,
               opened = [''main.py'']\<rparr>)"
  by (simp add: sample_repo_def rglob_def initial_def visit_def tally_def suffix_def
      binary_extensions_def decode_def python_only_guess_def)

lemma sample_repo_breakdown:
  "pygments_language_detect python_only_guess python_only_for_filename sample_repo
     = (Inr [(''Python'', PyFloat (Finite 50)), (''Binary'', PyFloat (Finite 50))],
        [''main.py''])"
proof -
  have "percentage 1 2 = Inr (PyFloat (Finite (rounded_percent 1 2)))"
    using percentage_value [of 1 2] by simp
  then have half: "percentage (Suc 0) 2 = Inr (PyFloat (Finite 50))"
    by (simp only: rounded_percent_half One_nat_def [symmetric])
  have dir: "is_file sample_repo = Inr False"
    by (simp add: sample_repo_def)
  show ?thesis
    unfolding detect_folder [OF dir] sample_repo_walk by (simp add: half)
qed

section \<open>Falling back from the external tool\<close>

lemma failed_tool_prints:
  assumes "tool_failure loads run = Some e" and "list_all (\<lambda>msg. print msg = None) (notices e)"
  shows "detect_with_linguist print loads run = (Inr JNull, notices e)"
  using assms
  by (auto simp: tool_failure_def detect_with_linguist_def notices_def
      split: run_result.splits sum.splits if_splits)

text \<open>
  Claim C9 as the specification states it promises a silent fall-back that always ends
  in a result. It fails in three ways. The handlers print: after a timeout two lines.
  When the walk meets a file on which \<open>is_file()\<close> raises, the internal detection raises
  as well and there is no result. When the console cannot encode the notice, \<open>print\<close>
  raises inside the handler and the exception leaves \<open>detect_with_linguist\<close>.
\<close>

theorem linguist_fallback_counterexample:
  "tool_failure no_json (Raised TimeoutExpired) = Some TimeoutExpired
   \<and> main_menu_results utf8_console no_json (Raised TimeoutExpired)
        python_only_guess python_only_for_filename locked_repo
       = (Inl PermissionError, [Linguist_error TimeoutExpired, Git_not_found])
   \<and> tool_failure no_json (Raised FileNotFoundError) = Some FileNotFoundError
   \<and> main_menu_results ascii_console no_json (Raised FileNotFoundError)
        python_only_guess python_only_for_filename sample_repo
       = (Inl UnicodeEncodeError, [])"
  by (simp add: tool_failure_def main_menu_results_def detect_with_linguist_def
      utf8_console_def ascii_console_def pygments_language_detect_def locked_repo_def
      rglob_def initial_def stat_exception_def visit_def tally_def suffix_def
      binary_extensions_def decode_def python_only_guess_def)

text \<open>
  Claim C9, amended. When running the external tool raises (not installed, non-zero
  exit, timeout, anything else) or its output is not JSON, and the console prints the
  notices of the handler (one line when the tool is not installed, two lines
  otherwise), \<open>detect_with_linguist\<close> returns \<open>None\<close>: the failure of the tool is not
  propagated. The menu then takes exactly what \<open>pygments_language_detect\<close> returns or
  raises for the same path. When \<open>is_file()\<close> raises neither on the path nor on an entry
  of the walk, that is a dictionary: the single label with 100 for a regular file, the
  rounded percentages for a folder with regular files, the empty dictionary otherwise.
  Choice 2 hands it to \<open>display_results\<close> as it is, and so does choice 1 unless a label
  is called \<open>breakdown\<close>.
\<close>

theorem linguist_failure_falls_back:
  assumes "tool_failure loads run = Some e" and "list_all (\<lambda>msg. print msg = None) (notices e)"
  shows "detect_with_linguist print loads run = (Inr JNull, notices e)
       \<and> main_menu_results print loads run g l path
           = (case fst (pygments_language_detect g l path) of
                Inl x \<Rightarrow> Inl x
              | Inr r \<Rightarrow> Inr (Pygments r),
              notices e)
       \<and> (stat_ok (path # rglob path) \<longrightarrow>
            main_menu_results print loads run g l path
              = (Inr (Pygments (expected_breakdown g l path)), notices e)
            \<and> display_argument Single_file (Pygments (expected_breakdown g l path))
                = Pygments (expected_breakdown g l path)
            \<and> (map_of (expected_breakdown g l path) ''breakdown'' = None \<longrightarrow>
                 display_argument Folder (Pygments (expected_breakdown g l path))
                   = Pygments (expected_breakdown g l path)))"
proof -
  have none: "detect_with_linguist print loads run = (Inr JNull, notices e)"
    using assms by (rule failed_tool_prints)
  then have menu: "main_menu_results print loads run g l path
           = (case fst (pygments_language_detect g l path) of
                Inl x \<Rightarrow> Inl x
              | Inr r \<Rightarrow> Inr (Pygments r),
              notices e)"
    by (simp add: main_menu_results_def split: sum.splits)
  have "main_menu_results print loads run g l path
              = (Inr (Pygments (expected_breakdown g l path)), notices e)"
    if "stat_ok (path # rglob path)"
    using detect_expected [OF that, of g l] by (simp add: menu)
  moreover have "display_argument Single_file (Pygments (expected_breakdown g l path))
                = Pygments (expected_breakdown g l path)"
    by (simp add: display_argument_def)
  moreover have "display_argument Folder (Pygments (expected_breakdown g l path))
                   = Pygments (expected_breakdown g l path)"
    if "map_of (expected_breakdown g l path) ''breakdown'' = None"
    using that by (simp add: display_argument_def)
  ultimately show ?thesis using none menu by blast
qed

text \<open>
  The tool times out on the sample folder: two notices, then half Python and half
  Binary.
\<close>

theorem linguist_failure_falls_back_witness:
  "tool_failure no_json (Raised TimeoutExpired) = Some TimeoutExpired
   \<and> list_all (\<lambda>msg. utf8_console msg = None) (notices TimeoutExpired)
   \<and> stat_ok (sample_repo # rglob sample_repo)
   \<and> main_menu_results utf8_console no_json (Raised TimeoutExpired)
        python_only_guess python_only_for_filename sample_repo
       = (Inr (Pygments [(''Python'', PyFloat (Finite 50)), (''Binary'', PyFloat (Finite 50))]),
          [Linguist_error TimeoutExpired, Git_not_found])
   \<and> expected_breakdown python_only_guess python_only_for_filename sample_repo
       = [(''Python'', PyFloat (Finite 50)), (''Binary'', PyFloat (Finite 50))]"
proof -
  have h: "tool_failure no_json (Raised TimeoutExpired) = Some TimeoutExpired"
    by (simp add: tool_failure_def)
  have c: "list_all (\<lambda>msg. utf8_console msg = None) (notices TimeoutExpired)"
    by (simp add: utf8_console_def notices_def)
  have ok: "stat_ok (sample_repo # rglob sample_repo)"
    by (simp add: sample_repo_def rglob_def)
  have n: "notices TimeoutExpired = [Linguist_error TimeoutExpired, Git_not_found]"
    by (simp add: notices_def)
  have br: "fst (pygments_language_detect python_only_guess python_only_for_filename sample_repo)
        = Inr [(''Python'', PyFloat (Finite 50)), (''Binary'', PyFloat (Finite 50))]"
    by (simp add: sample_repo_breakdown)
  have ex: "expected_breakdown python_only_guess python_only_for_filename sample_repo
       = [(''Python'', PyFloat (Finite 50)), (''Binary'', PyFloat (Finite 50))]"
    using detect_expected [OF ok, of python_only_guess python_only_for_filename] br by simp
  from linguist_failure_falls_back
         [OF h c, of python_only_guess python_only_for_filename sample_repo] ok
  have "main_menu_results utf8_console no_json (Raised TimeoutExpired)
          python_only_guess python_only_for_filename sample_repo
        = (Inr (Pygments (expected_breakdown python_only_guess python_only_for_filename
                            sample_repo)),
           notices TimeoutExpired)"
    by blast
  then have "main_menu_results utf8_console no_json (Raised TimeoutExpired)
          python_only_guess python_only_for_filename sample_repo
        = (Inr (Pygments [(''Python'', PyFloat (Finite 50)), (''Binary'', PyFloat (Finite 50))]),
           [Linguist_error TimeoutExpired, Git_not_found])"
    by (simp only: ex n)
  with h c ok ex show ?thesis by blast
qed

end
